theory Spec2Isabelle
  imports Main
begin

section \<open>Python values and exceptions\<close>

text \<open>
  The exceptions the modelled code can raise. \<open>PyException\<close> is the bare
  \<^verbatim>\<open>Exception()\<close> of \<^verbatim>\<open>is_region_available\<close>; \<open>ClientError\<close> is
  botocore's client-side service error; \<open>OtherError\<close> stands for any other failure of a
  collaborator (network, credentials, parameter validation), with its message.
\<close>

datatype error =
    IndexError
  | KeyError
  | TypeError
  | ValueError
  | NotImplementedError
  | JSONDecodeError
  | AttributeError
  | ClientError
  | PyException
  | OtherError string

text \<open>
  Structured Python values as \<^verbatim>\<open>json.loads\<close> produces them and as boto3 hands policy
  documents over. A \<^verbatim>\<open>dict\<close> is an association list in insertion order; Python dicts
  have no duplicate keys, and lookup takes the first binding.
\<close>

datatype json =
    JNull
  | JBool bool
  | JNum int
  | JStr string
  | JList "json list"
  | JDict "(string \<times> json) list"

section \<open>String helpers of the Python runtime\<close>

text \<open>
  \<^verbatim>\<open>s.split(sep)\<close> for a one-character separator: always at least one part,
  \<^verbatim>\<open>"".split(":") == [""]\<close>, \<^verbatim>\<open>"a:".split(":") == ["a", ""]\<close>.
\<close>

fun split_on :: "char \<Rightarrow> string \<Rightarrow> string list" where
  "split_on c [] = [[]]"
| "split_on c (x # xs) =
     (let r = split_on c xs in
      if x = c then [] # r else (x # hd r) # tl r)"

text \<open>\<^verbatim>\<open>sep.join(parts)\<close>.\<close>

fun join :: "string \<Rightarrow> string list \<Rightarrow> string" where
  "join sep [] = []"
| "join sep [p] = p"
| "join sep (p # q # ps) = p @ sep @ join sep (q # ps)"

text \<open>
  \<^verbatim>\<open>str.lower()\<close> on ASCII text (identity strings and service names are ASCII):
  \<open>A\<close>..\<open>Z\<close> go to \<open>a\<close>..\<open>z\<close>, every other character is kept.
\<close>

definition lower_char :: "char \<Rightarrow> char" where
  "lower_char c =
     (let n = (of_char c :: nat) in
      if 65 \<le> n \<and> n \<le> 90 then char_of (n + 32) else c)"

definition lower :: "string \<Rightarrow> string" where
  "lower s = map lower_char s"

text \<open>\<^verbatim>\<open>xs[i] = v\<close> for a non-negative index: IndexError out of range.\<close>

definition list_setitem :: "'a list \<Rightarrow> nat \<Rightarrow> 'a \<Rightarrow> error + 'a list" where
  "list_setitem xs i v = (if i < length xs then Inr (xs[i := v]) else Inl IndexError)"

text \<open>The \<open>i\<close>-th positional argument when it was passed, else the default \<^verbatim>\<open>None\<close>.\<close>

definition arg_or_none :: "'a list \<Rightarrow> nat \<Rightarrow> 'a option" where
  "arg_or_none xs i = (if i < length xs then Some (xs ! i) else None)"

text \<open>
  How an f-string renders a field whose value is a \<^verbatim>\<open>str\<close> or \<^verbatim>\<open>None\<close>:
  \<^verbatim>\<open>f"{None}" == "None"\<close>.
\<close>

definition fmt :: "string option \<Rightarrow> string" where
  "fmt v = (case v of None \<Rightarrow> ''None'' | Some s \<Rightarrow> s)"

section \<open>client.py: ARN\<close>

text \<open>
  \<^verbatim>\<open>split_arn_string\<close>. With exactly six parts and a \<open>/\<close> in the sixth, that part is
  split into the lower-cased resource type and the rest rejoined on \<open>/\<close>; with exactly
  six parts and no \<open>/\<close>, the code assigns to \<^verbatim>\<open>parts[6]\<close> of a six-element list;
  with any other number of parts the list is returned as split.
\<close>

definition split_arn_string :: "string \<Rightarrow> error + string list" where
  "split_arn_string arn =
     (let parts = split_on CHR '':'' arn in
      if length parts = 6 then
        (if CHR ''/'' \<in> set (parts ! 5) then
           (let resource = split_on CHR ''/'' (parts ! 5);
                parts1 = parts[5 := lower (hd resource)]
            in Inr (parts1 @ [join ''/'' (tl resource)]))
         else list_setitem parts 6 [])
      else Inr parts)"

record ARN =
  prefix :: "string option"
  partition :: "string option"
  service :: "string option"
  region :: "string option"
  account_id :: "string option"
  resource_type :: "string option"
  resource_id :: "string option"

text \<open>
  The generated \<^verbatim>\<open>__init__\<close> of the dataclass called with positional arguments:
  more than seven is a TypeError, a field with no argument keeps its default \<^verbatim>\<open>None\<close>.
\<close>

definition ARN_init :: "string list \<Rightarrow> error + ARN" where
  "ARN_init args =
     (if length args > 7 then Inl TypeError
      else Inr \<lparr>prefix = arg_or_none args 0, partition = arg_or_none args 1,
                service = arg_or_none args 2, region = arg_or_none args 3,
                account_id = arg_or_none args 4, resource_type = arg_or_none args 5,
                resource_id = arg_or_none args 6\<rparr>)"

text \<open>\<^verbatim>\<open>ARN.from_string\<close>: \<^verbatim>\<open>cls(*split_arn_string(arn=arn))\<close>.\<close>

definition from_string :: "string \<Rightarrow> error + ARN" where
  "from_string arn =
     (case split_arn_string arn of Inl e \<Rightarrow> Inl e | Inr parts \<Rightarrow> ARN_init parts)"

text \<open>\<^verbatim>\<open>ARN.__str__\<close>: the f-string, field by field.\<close>

definition ARN_str :: "ARN \<Rightarrow> string" where
  "ARN_str a =
     fmt (prefix a) @ '':'' @ fmt (partition a) @ '':'' @ fmt (service a) @ '':'' @
     fmt (region a) @ '':'' @ fmt (account_id a) @ '':'' @
     fmt (resource_type a) @ ''/'' @ fmt (resource_id a)"

section \<open>client.py: ClientMaker\<close>

text \<open>The fields of the STS \<^verbatim>\<open>GetCallerIdentity\<close> response that the code reads.\<close>

record caller_identity =
  Arn :: string
  Account :: string

text \<open>The keyword arguments of the \<^verbatim>\<open>simulate_custom_policy\<close> call.\<close>

record sim_request =
  PolicyInputList :: "string list"
  ActionNames :: "string list"
  PermissionsBoundaryPolicyInputList :: "string list"
  CallerArn :: string
  sim_args :: "(string \<times> json) list"

text \<open>
  A boto3 IAM resource (\<^verbatim>\<open>iam.User\<close>, \<^verbatim>\<open>iam.Role\<close>, \<^verbatim>\<open>iam.Group\<close>) as
  the code reads it. Every attribute is loaded lazily over the network, so each read
  can fail:
  \<^item> \<open>attached_policies\<close>: \<^verbatim>\<open>resource.attached_policies.all()\<close>, each element the
    \<^verbatim>\<open>default_version.document\<close> of that policy;
  \<^item> \<open>inline_policies\<close>: \<^verbatim>\<open>resource.policies.all()\<close>, each element the
    \<^verbatim>\<open>policy_document\<close>;
  \<^item> \<open>groups\<close>: \<open>None\<close> when the resource has no \<^verbatim>\<open>groups\<close> attribute (roles and
    groups), else \<^verbatim>\<open>resource.groups.all()\<close>;
  \<^item> \<open>permissions_boundary\<close>: the \<^verbatim>\<open>PermissionsBoundaryArn\<close> of the boundary, or
    \<open>None\<close> when the attribute is \<^verbatim>\<open>None\<close>.
\<close>

datatype iam_resource = IamResource
  (attached_policies: "error + (error + json) list")
  (inline_policies: "error + (error + json) list")
  (groups: "(error + iam_resource list) option")
  (permissions_boundary: "error + string option")

text \<open>
  The \<^verbatim>\<open>ClientMaker\<close> as the policy code uses it: the answers of the AWS services
  behind the session.
  \<^item> \<open>get_caller_identity\<close>: \<^verbatim>\<open>_get_caller_identity(**client_args)\<close>, by the
    \<^verbatim>\<open>region_name\<close> argument when one is given;
  \<^item> \<open>iam_User\<close>, \<open>iam_Role\<close>: \<^verbatim>\<open>cm.resource("iam").User(name)\<close> and
    \<^verbatim>\<open>.Role(name)\<close>;
  \<^item> \<open>list_policies_for_target\<close>: the \<^verbatim>\<open>Id\<close>s of the service control policies that
    \<^verbatim>\<open>cm.call("organizations", "list_policies_for_target", ...)\<close> returns for a
    \<^verbatim>\<open>TargetId\<close>;
  \<^item> \<open>describe_policy_content\<close>: \<^verbatim>\<open>describe_policy(PolicyId=id)["Policy"]["Content"]\<close>,
    a JSON text;
  \<^item> \<open>simulate_custom_policy\<close>: the \<^verbatim>\<open>EvalDecision\<close> of each entry of
    \<^verbatim>\<open>EvaluationResults\<close>.
\<close>

record client_maker =
  get_caller_identity :: "string option \<Rightarrow> error + caller_identity"
  iam_User :: "string option \<Rightarrow> error + iam_resource"
  iam_Role :: "string option \<Rightarrow> error + iam_resource"
  list_policies_for_target :: "string option \<Rightarrow> error + string list"
  describe_policy_content :: "string \<Rightarrow> error + string"
  simulate_custom_policy :: "sim_request \<Rightarrow> error + string list"

text \<open>The properties \<^verbatim>\<open>caller_arn_str\<close>, \<^verbatim>\<open>account_number\<close> and \<^verbatim>\<open>caller_arn\<close>.\<close>

definition caller_arn_str :: "client_maker \<Rightarrow> error + string" where
  "caller_arn_str cm =
     (case get_caller_identity cm None of Inl e \<Rightarrow> Inl e | Inr ident \<Rightarrow> Inr (Arn ident))"

definition account_number :: "client_maker \<Rightarrow> error + string" where
  "account_number cm =
     (case get_caller_identity cm None of Inl e \<Rightarrow> Inl e | Inr ident \<Rightarrow> Inr (Account ident))"

definition caller_arn :: "client_maker \<Rightarrow> error + ARN" where
  "caller_arn cm =
     (case caller_arn_str cm of Inl e \<Rightarrow> Inl e | Inr s \<Rightarrow> from_string s)"

text \<open>
  \<^verbatim>\<open>try: ... finally: ...\<close>: when the \<^verbatim>\<open>finally\<close> block raises, its exception
  replaces the pending return value or exception of the \<^verbatim>\<open>try\<close> statement.
\<close>

definition py_finally :: "error + 'a \<Rightarrow> error + unit \<Rightarrow> error + 'a" where
  "py_finally pending fin = (case fin of Inl e \<Rightarrow> Inl e | Inr _ \<Rightarrow> pending)"

text \<open>
  \<^verbatim>\<open>is_region_available\<close>: the \<^verbatim>\<open>try\<close> body returns True, the handler turns a
  ClientError into False, and the \<^verbatim>\<open>finally\<close> block is \<^verbatim>\<open>raise Exception()\<close>.
\<close>

definition is_region_available :: "client_maker \<Rightarrow> string \<Rightarrow> error + bool" where
  "is_region_available cm reg =
     py_finally
       (case get_caller_identity cm (Some reg) of
          Inr _ \<Rightarrow> Inr True
        | Inl e \<Rightarrow> if e = ClientError then Inr False else Inl e)
       (Inl PyException)"

section \<open>policy.py\<close>

text \<open>\<^verbatim>\<open>arn_to_iam_resource\<close>.\<close>

definition arn_to_iam_resource :: "ARN \<Rightarrow> client_maker \<Rightarrow> error + iam_resource" where
  "arn_to_iam_resource a cm =
     (if resource_type a = Some ''user'' then iam_User cm (resource_id a)
      else if resource_type a = Some ''role'' then iam_Role cm (resource_id a)
      else Inl NotImplementedError)"

text \<open>A list comprehension or loop whose body can raise: the first failure ends it.\<close>

fun map_raising :: "('a \<Rightarrow> error + 'b) \<Rightarrow> 'a list \<Rightarrow> error + 'b list" where
  "map_raising f [] = Inr []"
| "map_raising f (x # xs) =
     (case f x of
        Inl e \<Rightarrow> Inl e
      | Inr y \<Rightarrow> (case map_raising f xs of Inl e \<Rightarrow> Inl e | Inr ys \<Rightarrow> Inr (y # ys)))"

text \<open>
  \<^verbatim>\<open>get_scps_for_account\<close>: the policies listed for the target, then the content of
  each. The contents are JSON texts, that is Python \<^verbatim>\<open>str\<close> values.
\<close>

definition get_scps_for_account :: "string option \<Rightarrow> client_maker \<Rightarrow> error + json list" where
  "get_scps_for_account account cm =
     (case list_policies_for_target cm account of
        Inl e \<Rightarrow> Inl e
      | Inr scps \<Rightarrow>
          map_raising
            (\<lambda>scp. case describe_policy_content cm scp of
                      Inl e \<Rightarrow> Inl e | Inr content \<Rightarrow> Inr (JStr content))
            scps)"

text \<open>
  \<^verbatim>\<open>policy["Statement"]\<close>: KeyError when a dict lacks the key, TypeError on a value
  that is no dict.
\<close>

definition getitem_Statement :: "json \<Rightarrow> error + json" where
  "getitem_Statement policy =
     (case policy of
        JDict kvs \<Rightarrow>
          (case map_of kvs ''Statement'' of None \<Rightarrow> Inl KeyError | Some v \<Rightarrow> Inr v)
      | _ \<Rightarrow> Inl TypeError)"

text \<open>
  What \<^verbatim>\<open>list.extend(v)\<close> appends: the elements of a list, the keys of a dict, the
  characters of a string; any other value is not iterable.
\<close>

definition extend_items :: "json \<Rightarrow> error + json list" where
  "extend_items v =
     (case v of
        JList xs \<Rightarrow> Inr xs
      | JDict kvs \<Rightarrow> Inr (map (\<lambda>kv. JStr (fst kv)) kvs)
      | JStr s \<Rightarrow> Inr (map (\<lambda>c. JStr [c]) s)
      | _ \<Rightarrow> Inl TypeError)"

text \<open>
  \<^verbatim>\<open>if type(policy) == str: policy = json.loads(policy)\<close>. \<open>loads\<close> is
  \<^verbatim>\<open>json.loads\<close> of the standard library (\<open>None\<close> when it raises JSONDecodeError).
\<close>

definition loads_if_str :: "(string \<Rightarrow> json option) \<Rightarrow> json \<Rightarrow> error + json" where
  "loads_if_str loads policy =
     (case policy of
        JStr s \<Rightarrow> (case loads s of None \<Rightarrow> Inl JSONDecodeError | Some v \<Rightarrow> Inr v)
      | _ \<Rightarrow> Inr policy)"

text \<open>
  The loop of \<^verbatim>\<open>merge_policy_dicts\<close>, with \<open>acc\<close> the value of
  \<^verbatim>\<open>merged_policy["Statement"]\<close>.
\<close>

fun merge_statements ::
  "(string \<Rightarrow> json option) \<Rightarrow> json list \<Rightarrow> json list \<Rightarrow> error + json list" where
  "merge_statements loads acc [] = Inr acc"
| "merge_statements loads acc (policy # rest) =
     (case loads_if_str loads policy of
        Inl e \<Rightarrow> Inl e
      | Inr p \<Rightarrow>
          (case getitem_Statement p of
             Inl e \<Rightarrow> Inl e
           | Inr st \<Rightarrow>
               (case extend_items st of
                  Inl e \<Rightarrow> Inl e
                | Inr items \<Rightarrow> merge_statements loads (acc @ items) rest)))"

definition merge_policy_dicts :: "(string \<Rightarrow> json option) \<Rightarrow> json list \<Rightarrow> error + json" where
  "merge_policy_dicts loads policies =
     (case merge_statements loads [] policies of
        Inl e \<Rightarrow> Inl e
      | Inr stmts \<Rightarrow>
          Inr (JDict [(''Version'', JStr ''2012-10-17''), (''Statement'', JList stmts)]))"

text \<open>
  The two loops of \<^verbatim>\<open>get_policy_documents_for_resource\<close>: every document read is
  appended to \<open>policies\<close>.
\<close>

fun append_documents :: "json list \<Rightarrow> (error + json) list \<Rightarrow> error + json list" where
  "append_documents policies [] = Inr policies"
| "append_documents policies (d # ds) =
     (case d of Inl e \<Rightarrow> Inl e | Inr doc \<Rightarrow> append_documents (policies @ [doc]) ds)"

definition get_policy_documents_for_resource :: "iam_resource \<Rightarrow> error + json list" where
  "get_policy_documents_for_resource resource =
     (case attached_policies resource of
        Inl e \<Rightarrow> Inl e
      | Inr attached \<Rightarrow>
          (case append_documents [] attached of
             Inl e \<Rightarrow> Inl e
           | Inr policies \<Rightarrow>
               (case inline_policies resource of
                  Inl e \<Rightarrow> Inl e
                | Inr inline \<Rightarrow> append_documents policies inline)))"

text \<open>
  The loop of \<^verbatim>\<open>get_group_policy_documents_for_resource\<close> over the groups, extending
  \<open>policies\<close> with the documents of each group.
\<close>

fun extend_group_documents :: "json list \<Rightarrow> iam_resource list \<Rightarrow> error + json list" where
  "extend_group_documents policies [] = Inr policies"
| "extend_group_documents policies (g # gs) =
     (case get_policy_documents_for_resource g of
        Inl e \<Rightarrow> Inl e
      | Inr docs \<Rightarrow> extend_group_documents (policies @ docs) gs)"

text \<open>
  \<^verbatim>\<open>get_group_policy_documents_for_resource\<close>: the loop fills \<open>policies\<close>, and the
  function ends with \<^verbatim>\<open>return []\<close>.
\<close>

definition get_group_policy_documents_for_resource :: "iam_resource \<Rightarrow> error + json list" where
  "get_group_policy_documents_for_resource resource =
     (case groups resource of
        None \<Rightarrow> Inr []
      | Some all_groups \<Rightarrow>
          (case all_groups of
             Inl e \<Rightarrow> Inl e
           | Inr gs \<Rightarrow>
               (case extend_group_documents [] gs of
                  Inl e \<Rightarrow> Inl e
                | Inr policies \<Rightarrow> Inr [])))"

text \<open>The truth value of \<^verbatim>\<open>arn.account_id\<close>: false for \<^verbatim>\<open>None\<close> and for \<^verbatim>\<open>""\<close>.\<close>

definition truthy :: "string option \<Rightarrow> bool" where
  "truthy v = (case v of None \<Rightarrow> False | Some s \<Rightarrow> s \<noteq> [])"

text \<open>
  \<^verbatim>\<open>iam.Policy(arn).default_version.document\<close> in \<^verbatim>\<open>PolicyContainer.__init__\<close>,
  where \<^verbatim>\<open>iam = cm.client("iam")\<close>. \<^verbatim>\<open>ClientMaker.client\<close> returns the low-level client
  of \<^verbatim>\<open>session.client\<close>; \<^verbatim>\<open>Policy\<close> is a class of the resource
  \<^verbatim>\<open>session.resource("iam")\<close> only, so reading the attribute \<^verbatim>\<open>Policy\<close> of the client
  raises AttributeError, whatever the policy.
\<close>

definition client_Policy_document :: "client_maker \<Rightarrow> string \<Rightarrow> error + json" where
  "client_Policy_document cm policy_arn = Inl AttributeError"

text \<open>
  The part of \<^verbatim>\<open>PolicyContainer.__init__\<close> that fills \<open>negative_policies\<close>: the
  document of the permission boundary when the resource has one, then, when
  \<open>collect_scps\<close> is set, the service control policies. The local
  \<^verbatim>\<open>account_number\<close> (here \<open>account_number'\<close>) is computed as in the source, and the call of
  \<^verbatim>\<open>get_scps_for_account\<close> is given \<^verbatim>\<open>arn.account_id\<close>.
\<close>

definition collect_negative_policies ::
  "ARN \<Rightarrow> client_maker \<Rightarrow> iam_resource \<Rightarrow> bool \<Rightarrow> error + json list" where
  "collect_negative_policies a cm resource collect_scps =
     (case permissions_boundary resource of
        Inl e \<Rightarrow> Inl e
      | Inr boundary \<Rightarrow>
          (case (case boundary of
                   None \<Rightarrow> Inr []
                 | Some boundary_arn \<Rightarrow>
                     (case client_Policy_document cm boundary_arn of
                        Inl e \<Rightarrow> Inl e | Inr doc \<Rightarrow> Inr [doc])) of
             Inl e \<Rightarrow> Inl e
           | Inr negative_policies \<Rightarrow>
               if collect_scps then
                 (case (if truthy (account_id a) then Inr (account_id a)
                        else (case account_number cm of
                                Inl e \<Rightarrow> Inl e | Inr n \<Rightarrow> Inr (Some n))) of
                    Inl e \<Rightarrow> Inl e
                  | Inr account_number' \<Rightarrow>
                      (case get_scps_for_account (account_id a) cm of
                         Inl e \<Rightarrow> Inl e
                       | Inr scps \<Rightarrow> Inr (negative_policies @ scps)))
               else Inr negative_policies))"

record policy_container =
  pc_policies :: "json list"
  pc_negative_policies :: "json list option"
  pc_cm :: client_maker
  pc_arn :: ARN

text \<open>
  \<^verbatim>\<open>PolicyContainer.__init__\<close>, with the merge function it calls as the parameter
  \<open>merge\<close>, so that a call of it can be told from no call.
\<close>

definition PolicyContainer_init_with ::
  "(json list \<Rightarrow> error + json) \<Rightarrow> ARN \<Rightarrow> client_maker \<Rightarrow> bool \<Rightarrow> error + policy_container" where
  "PolicyContainer_init_with merge a cm collect_scps =
     (case arn_to_iam_resource a cm of
        Inl e \<Rightarrow> Inl e
      | Inr resource \<Rightarrow>
          (case get_policy_documents_for_resource resource of
             Inl e \<Rightarrow> Inl e
           | Inr direct \<Rightarrow>
               (case get_group_policy_documents_for_resource resource of
                  Inl e \<Rightarrow> Inl e
                | Inr from_groups \<Rightarrow>
                    (case collect_negative_policies a cm resource collect_scps of
                       Inl e \<Rightarrow> Inl e
                     | Inr negative_policies \<Rightarrow>
                         (case (if length negative_policies > 0
                                then (case merge negative_policies of
                                        Inl e \<Rightarrow> Inl e | Inr merged \<Rightarrow> Inr (Some [merged]))
                                else Inr None) of
                            Inl e \<Rightarrow> Inl e
                          | Inr negative \<Rightarrow>
                              Inr \<lparr>pc_policies = direct @ from_groups,
                                   pc_negative_policies = negative,
                                   pc_cm = cm, pc_arn = a\<rparr>)))))"

text \<open>\<^verbatim>\<open>PolicyContainer.__init__\<close> as written: the merge is \<^verbatim>\<open>merge_policy_dicts\<close>.\<close>

definition PolicyContainer_init ::
  "(string \<Rightarrow> json option) \<Rightarrow> ARN \<Rightarrow> client_maker \<Rightarrow> bool \<Rightarrow> error + policy_container" where
  "PolicyContainer_init loads a cm collect_scps =
     PolicyContainer_init_with (merge_policy_dicts loads) a cm collect_scps"

text \<open>
  The request that \<^verbatim>\<open>PolicyContainer.simulate\<close> sends. \<open>dumps\<close> is
  \<^verbatim>\<open>json.dumps\<close> of the standard library.
\<close>

definition simulate_request ::
  "(json \<Rightarrow> string) \<Rightarrow> policy_container \<Rightarrow> string list \<Rightarrow> (string \<times> json) list \<Rightarrow> sim_request" where
  "simulate_request dumps pc actions args =
     \<lparr>PolicyInputList = map dumps (pc_policies pc),
      ActionNames = actions,
      PermissionsBoundaryPolicyInputList =
        (case pc_negative_policies pc of
           None \<Rightarrow> []
         | Some negative \<Rightarrow> if negative = [] then [] else map dumps negative),
      CallerArn = ARN_str (pc_arn pc),
      sim_args = args\<rparr>"

text \<open>
  \<^verbatim>\<open>PolicyContainer.simulate\<close>: the decision of the first evaluation result; an
  empty result list is an IndexError.
\<close>

definition PolicyContainer_simulate ::
  "(json \<Rightarrow> string) \<Rightarrow> policy_container \<Rightarrow> string list \<Rightarrow> (string \<times> json) list \<Rightarrow> error + string" where
  "PolicyContainer_simulate dumps pc actions args =
     (case simulate_custom_policy (pc_cm pc) (simulate_request dumps pc actions args) of
        Inl e \<Rightarrow> Inl e
      | Inr results \<Rightarrow> (case results of [] \<Rightarrow> Inl IndexError | decision # _ \<Rightarrow> Inr decision))"

record simulated_client =
  sc_service :: string
  sc_cm :: client_maker
  sc_pc :: policy_container

text \<open>\<^verbatim>\<open>SimulatedClient.__init__\<close>: a container for the caller's own identity.\<close>

definition SimulatedClient_init ::
  "(string \<Rightarrow> json option) \<Rightarrow> client_maker \<Rightarrow> string \<Rightarrow> bool \<Rightarrow> error + simulated_client" where
  "SimulatedClient_init loads cm svc collect_scps =
     (case caller_arn cm of
        Inl e \<Rightarrow> Inl e
      | Inr a \<Rightarrow>
          (case PolicyContainer_init loads a cm collect_scps of
             Inl e \<Rightarrow> Inl e
           | Inr pc \<Rightarrow> Inr \<lparr>sc_service = svc, sc_cm = cm, sc_pc = pc\<rparr>))"

text \<open>
  The function that \<^verbatim>\<open>SimulatedClient.__getattr__\<close> returns, called:
  \<open>method_to_api_mapping svc\<close> is \<^verbatim>\<open>unsigned_client(svc).meta.method_to_api_mapping\<close>
  of botocore (its creation can fail), an operation absent from the mapping is a KeyError,
  and the arguments of the call are ignored.
\<close>

definition simulate_api ::
  "(json \<Rightarrow> string) \<Rightarrow> (string \<Rightarrow> error + (string \<Rightarrow> string option)) \<Rightarrow>
   simulated_client \<Rightarrow> string \<Rightarrow> error + string" where
  "simulate_api dumps method_to_api_mapping sc operation =
     (case method_to_api_mapping (sc_service sc) of
        Inl e \<Rightarrow> Inl e
      | Inr mapping \<Rightarrow>
          (case mapping operation of
             None \<Rightarrow> Inl KeyError
           | Some method \<Rightarrow>
               (let action = lower (sc_service sc) @ '':'' @ method
                in PolicyContainer_simulate dumps (sc_pc sc) [action] [])))"

section \<open>Notions of the specification\<close>

text \<open>
  The fields of an Identity Reference in the order of its canonical string form.
\<close>

definition ARN_fields :: "ARN \<Rightarrow> string option list" where
  "ARN_fields a =
     [prefix a, partition a, service a, region a, account_id a, resource_type a,
      resource_id a]"

text \<open>
  The Statement sequence of a policy document given as a structured mapping or as text
  that deserializes to one; \<open>None\<close> for a value that is no policy document.
\<close>

definition document_statements :: "(string \<Rightarrow> json option) \<Rightarrow> json \<Rightarrow> json list option" where
  "document_statements loads p =
     (case (case p of JStr s \<Rightarrow> loads s | _ \<Rightarrow> Some p) of
        Some (JDict kvs) \<Rightarrow>
          (case map_of kvs ''Statement'' of Some (JList stmts) \<Rightarrow> Some stmts | _ \<Rightarrow> None)
      | _ \<Rightarrow> None)"

section \<open>An example environment\<close>

text \<open>
  A small account used to run the model: the user \<open>alice\<close> has one attached policy
  \<open>doc_A\<close>, one inline policy \<open>doc_B\<close> and belongs to one group with the attached
  policy \<open>doc_G\<close>; the role \<open>MyRole\<close> has a permission boundary; the organization has
  one service control policy for account \<open>111122223333\<close>, and the lookup of service
  control policies rejects every other target.
\<close>

definition example_loads :: "string \<Rightarrow> json option" where
  "example_loads s =
     (if s = ''scp-text''
      then Some (JDict [(''Version'', JStr ''2012-10-17''),
                        (''Statement'', JList [JStr ''DenyLeaveOrg''])])
      else None)"

definition example_dumps :: "json \<Rightarrow> string" where
  "example_dumps v = (case v of JStr s \<Rightarrow> s | _ \<Rightarrow> ''{...}'')"

definition boundary_doc :: json where
  "boundary_doc =
     JDict [(''Version'', JStr ''2012-10-17''),
            (''Statement'', JList [JStr ''AllowS3'', JStr ''AllowEC2''])]"

definition doc_A :: json where
  "doc_A = JDict [(''Version'', JStr ''2012-10-17''), (''Statement'', JList [JStr ''A''])]"

definition doc_B :: json where
  "doc_B = JDict [(''Version'', JStr ''2012-10-17''), (''Statement'', JList [JStr ''B''])]"

definition doc_G :: json where
  "doc_G = JDict [(''Version'', JStr ''2012-10-17''), (''Statement'', JList [JStr ''G''])]"

definition example_group :: iam_resource where
  "example_group = IamResource (Inr [Inr doc_G]) (Inr []) None (Inr None)"

definition example_user :: iam_resource where
  "example_user =
     IamResource (Inr [Inr doc_A]) (Inr [Inr doc_B]) (Some (Inr [example_group])) (Inr None)"

definition example_role :: iam_resource where
  "example_role =
     IamResource (Inr [Inr doc_A]) (Inr []) None
       (Inr (Some ''arn:aws:iam::111122223333:policy/pb''))"

definition example_cm :: client_maker where
  "example_cm =
     \<lparr>get_caller_identity =
        (\<lambda>r. Inr \<lparr>Arn = ''arn:aws:iam::111122223333:user/alice'',
                   Account = ''111122223333''\<rparr>),
      iam_User =
        (\<lambda>n. if n = Some ''alice'' then Inr example_user
              else Inl (OtherError ''NoSuchEntity'')),
      iam_Role =
        (\<lambda>n. if n = Some ''MyRole'' then Inr example_role
              else Inl (OtherError ''NoSuchEntity'')),
      list_policies_for_target =
        (\<lambda>t. if t = Some ''111122223333'' then Inr [''p-1'']
              else Inl (OtherError ''ParamValidationError'')),
      describe_policy_content =
        (\<lambda>i. if i = ''p-1'' then Inr ''scp-text'' else Inl (OtherError ''PolicyNotFound'')),
      simulate_custom_policy = (\<lambda>req. Inr [''allowed''])\<rparr>"

definition user_arn :: ARN where
  "user_arn =
     \<lparr>prefix = Some ''arn'', partition = Some ''aws'', service = Some ''iam'',
      region = Some '''', account_id = Some ''111122223333'',
      resource_type = Some ''user'', resource_id = Some ''alice''\<rparr>"

definition role_arn :: ARN where
  "role_arn =
     \<lparr>prefix = Some ''arn'', partition = Some ''aws'', service = Some ''iam'',
      region = Some '''', account_id = Some ''111122223333'',
      resource_type = Some ''role'', resource_id = Some ''MyRole''\<rparr>"

text \<open>\<^verbatim>\<open>ARN(resource_type="user", resource_id="alice")\<close>: no account field.\<close>

definition user_no_account :: ARN where
  "user_no_account =
     \<lparr>prefix = None, partition = None, service = None, region = None, account_id = None,
      resource_type = Some ''user'', resource_id = Some ''alice''\<rparr>"

definition user_pc :: policy_container where
  "user_pc =
     \<lparr>pc_policies = [doc_A, doc_B], pc_negative_policies = None,
      pc_cm = example_cm, pc_arn = user_arn\<rparr>"

definition ec2_api_names :: "string \<Rightarrow> string option" where
  "ec2_api_names operation =
     (if operation = ''describe_instances'' then Some ''DescribeInstances''
      else if operation = ''run_instances'' then Some ''RunInstances''
      else None)"

definition example_mapping :: "string \<Rightarrow> error + (string \<Rightarrow> string option)" where
  "example_mapping svc =
     (if svc = ''ec2'' then Inr ec2_api_names else Inl (OtherError ''UnknownServiceError''))"

definition ec2_client :: simulated_client where
  "ec2_client = \<lparr>sc_service = ''ec2'', sc_cm = example_cm, sc_pc = user_pc\<rparr>"

lemmas example_defs =
  example_loads_def example_dumps_def boundary_doc_def doc_A_def doc_B_def doc_G_def
  example_group_def example_user_def example_role_def example_cm_def user_arn_def
  role_arn_def user_no_account_def user_pc_def

lemmas model_defs =
  PolicyContainer_init_def PolicyContainer_init_with_def arn_to_iam_resource_def
  get_policy_documents_for_resource_def get_group_policy_documents_for_resource_def
  collect_negative_policies_def get_scps_for_account_def merge_policy_dicts_def
  getitem_Statement_def extend_items_def truthy_def account_number_def loads_if_str_def
  client_Policy_document_def

section \<open>Facts about the helpers\<close>

lemma split_on_nonempty: "split_on c s \<noteq> []"
  by (induction s) (auto simp: Let_def)

lemma arg_or_none_upt:
  "map (arg_or_none xs) [0..<n] = map Some (take n xs) @ replicate (n - length xs) None"
  by (rule nth_equalityI) (auto simp: arg_or_none_def nth_append)

lemma upt_seven: "[0..<7] = [0, 1, 2, 3, 4, 5, 6::nat]"
  by code_simp

lemma fields_of_parts:
  assumes "length parts < 6"
  shows "[arg_or_none parts 0, arg_or_none parts 1, arg_or_none parts 2,
          arg_or_none parts 3, arg_or_none parts 4, arg_or_none parts 5,
          arg_or_none parts 6]
         = map Some parts @ replicate (7 - length parts) None"
proof -
  have "[arg_or_none parts 0, arg_or_none parts 1, arg_or_none parts 2,
         arg_or_none parts 3, arg_or_none parts 4, arg_or_none parts 5,
         arg_or_none parts 6]
        = map (arg_or_none parts) [0..<7]"
    by (simp add: upt_seven)
  also have "\<dots> = map Some (take 7 parts) @ replicate (7 - length parts) None"
    by (rule arg_or_none_upt)
  finally show ?thesis using assms by simp
qed

text \<open>
  Six parts and no \<open>/\<close> in the sixth: the assignment to \<^verbatim>\<open>parts[6]\<close> is out of range
  whatever the input.
\<close>

lemma from_string_six_parts_no_slash:
  assumes "length (split_on CHR '':'' s) = 6"
    and "CHR ''/'' \<notin> set (split_on CHR '':'' s ! 5)"
  shows "from_string s = Inl IndexError"
  using assms
  by (simp add: from_string_def split_arn_string_def list_setitem_def Let_def)

lemma document_statements_step:
  assumes "document_statements loads p = Some ss"
  shows "\<exists>d. loads_if_str loads p = Inr d \<and> getitem_Statement d = Inr (JList ss)"
proof (cases "loads_if_str loads p")
  case (Inl e)
  with assms show ?thesis
    by (auto simp: document_statements_def loads_if_str_def split: json.splits option.splits)
next
  case (Inr d)
  with assms have "getitem_Statement d = Inr (JList ss)"
    by (auto simp: document_statements_def loads_if_str_def getitem_Statement_def
        split: json.splits option.splits)
  with Inr show ?thesis by simp
qed

lemma merge_statements_concat:
  assumes "list_all2 (\<lambda>p ss. document_statements loads p = Some ss) ps sss"
  shows "merge_statements loads acc ps = Inr (acc @ concat sss)"
  using assms
proof (induction ps sss arbitrary: acc rule: list_all2_induct)
  case Nil
  show ?case by simp
next
  case (Cons p ps ss sss)
  from document_statements_step [OF Cons.hyps(1)]
  obtain d where d: "loads_if_str loads p = Inr d" "getitem_Statement d = Inr (JList ss)"
    by blast
  show ?case
    by (simp add: d extend_items_def Cons.IH)
qed

lemma collect_negative_policies_empty:
  assumes "collect_negative_policies a cm resource collect_scps = Inr candidates"
  shows "candidates = [] \<longleftrightarrow>
           permissions_boundary resource = Inr None \<and>
           (collect_scps \<longrightarrow> get_scps_for_account (account_id a) cm = Inr [])"
  using assms
  by (auto simp: collect_negative_policies_def split: sum.splits option.splits if_splits)

lemma init_with_result:
  assumes "PolicyContainer_init_with merge a cm collect_scps = Inr pc"
  shows "\<exists>resource candidates.
           arn_to_iam_resource a cm = Inr resource \<and>
           collect_negative_policies a cm resource collect_scps = Inr candidates \<and>
           (candidates = [] \<longrightarrow> pc_negative_policies pc = None) \<and>
           (candidates \<noteq> [] \<longrightarrow>
              (\<exists>merged. merge candidates = Inr merged \<and>
                        pc_negative_policies pc = Some [merged]))"
  using assms
  by (auto simp: PolicyContainer_init_with_def split: sum.splits if_splits)

text \<open>
  The construction reads the merge function on non-empty lists only: two merge functions
  that agree there give the same construction.
\<close>

lemma init_with_cong:
  assumes "\<forall>xs. xs \<noteq> [] \<longrightarrow> merge' xs = merge xs"
  shows "PolicyContainer_init_with merge' a cm collect_scps =
         PolicyContainer_init_with merge a cm collect_scps"
  using assms
  by (auto simp: PolicyContainer_init_with_def split: sum.splits)

lemma user_init:
  "PolicyContainer_init example_loads user_arn example_cm False = Inr user_pc"
  by (simp add: model_defs example_defs)

section \<open>Policy Container\<close>

text \<open>
  What holds of every construction that returns a container: the restrict-side policy is
  \<open>None\<close> exactly when the list of candidates is empty, otherwise it is the one-element
  list of their merge, and the merge function is read on non-empty lists only.
\<close>

lemma restrict_policy_of_container:
  assumes "PolicyContainer_init loads a cm collect_scps = Inr pc"
  shows "\<exists>resource candidates.
           arn_to_iam_resource a cm = Inr resource \<and>
           collect_negative_policies a cm resource collect_scps = Inr candidates \<and>
           (candidates = [] \<longleftrightarrow>
              permissions_boundary resource = Inr None \<and>
              (collect_scps \<longrightarrow> get_scps_for_account (account_id a) cm = Inr [])) \<and>
           (pc_negative_policies pc = None \<longleftrightarrow> candidates = []) \<and>
           (candidates \<noteq> [] \<longrightarrow>
              (\<exists>merged. merge_policy_dicts loads candidates = Inr merged \<and>
                        pc_negative_policies pc = Some [merged])) \<and>
           (\<forall>merge'. (\<forall>xs. xs \<noteq> [] \<longrightarrow> merge' xs = merge_policy_dicts loads xs) \<longrightarrow>
              PolicyContainer_init_with merge' a cm collect_scps = Inr pc)"
proof -
  from assms
  have w: "PolicyContainer_init_with (merge_policy_dicts loads) a cm collect_scps = Inr pc"
    by (simp add: PolicyContainer_init_def)
  from init_with_result [OF w] obtain resource candidates where
    r: "arn_to_iam_resource a cm = Inr resource"
    and c: "collect_negative_policies a cm resource collect_scps = Inr candidates"
    and e: "candidates = [] \<longrightarrow> pc_negative_policies pc = None"
    and n: "candidates \<noteq> [] \<longrightarrow>
              (\<exists>merged. merge_policy_dicts loads candidates = Inr merged \<and>
                        pc_negative_policies pc = Some [merged])"
    by blast
  have iff: "pc_negative_policies pc = None \<longleftrightarrow> candidates = []"
    using e n by auto
  have indep:
    "\<forall>merge'. (\<forall>xs. xs \<noteq> [] \<longrightarrow> merge' xs = merge_policy_dicts loads xs) \<longrightarrow>
       PolicyContainer_init_with merge' a cm collect_scps = Inr pc"
    using init_with_cong [of _ "merge_policy_dicts loads" a cm collect_scps] w by simp
  have emp: "candidates = [] \<longleftrightarrow>
              permissions_boundary resource = Inr None \<and>
              (collect_scps \<longrightarrow> get_scps_for_account (account_id a) cm = Inr [])"
    by (rule collect_negative_policies_empty [OF c])
  show ?thesis
  proof (rule exI [of _ resource], rule exI [of _ candidates], intro conjI)
    show "arn_to_iam_resource a cm = Inr resource" by (rule r)
    show "collect_negative_policies a cm resource collect_scps = Inr candidates" by (rule c)
    show "candidates = [] \<longleftrightarrow>
              permissions_boundary resource = Inr None \<and>
              (collect_scps \<longrightarrow> get_scps_for_account (account_id a) cm = Inr [])"
      by (rule emp)
    show "pc_negative_policies pc = None \<longleftrightarrow> candidates = []" by (rule iff)
    show "candidates \<noteq> [] \<longrightarrow>
              (\<exists>merged. merge_policy_dicts loads candidates = Inr merged \<and>
                        pc_negative_policies pc = Some [merged])"
      by (rule n)
    show "\<forall>merge'. (\<forall>xs. xs \<noteq> [] \<longrightarrow> merge' xs = merge_policy_dicts loads xs) \<longrightarrow>
       PolicyContainer_init_with merge' a cm collect_scps = Inr pc"
      by (rule indep)
  qed
qed

text \<open>
  A principal with a permission boundary: the fetch of the boundary document raises, so
  no list of candidates is collected, and a construction that returns a container was
  for a principal without boundary.
\<close>

lemma boundary_fetch_raises:
  assumes "permissions_boundary resource = Inr (Some boundary_arn)"
  shows "collect_negative_policies a cm resource collect_scps = Inl AttributeError"
  using assms by (simp add: collect_negative_policies_def client_Policy_document_def)

lemma container_has_no_boundary:
  assumes "PolicyContainer_init loads a cm collect_scps = Inr pc"
    and "arn_to_iam_resource a cm = Inr resource"
  shows "permissions_boundary resource = Inr None"
proof (cases "permissions_boundary resource")
  case (Inl e)
  with assms show ?thesis
    by (simp add: PolicyContainer_init_def PolicyContainer_init_with_def
        collect_negative_policies_def split: sum.splits)
next
  case (Inr boundary)
  show ?thesis
  proof (cases boundary)
    case None
    with Inr show ?thesis by simp
  next
    case (Some boundary_arn)
    with Inr have "collect_negative_policies a cm resource collect_scps = Inl AttributeError"
      by (simp add: boundary_fetch_raises)
    with assms show ?thesis
      by (simp add: PolicyContainer_init_def PolicyContainer_init_with_def split: sum.splits)
  qed
qed

text \<open>
  C1. When at least one restrict-side candidate exists, the container should hold exactly
  one merged document. The example role \<open>MyRole\<close> has a permission boundary, which is a
  restrict-side candidate, and its construction raises AttributeError, with and without
  the account policies: no container and no merged document is built.
\<close>

theorem PolicyContainer_boundary_raises:
  "arn_to_iam_resource role_arn example_cm = Inr example_role
   \<and> permissions_boundary example_role = Inr (Some ''arn:aws:iam::111122223333:policy/pb'')
   \<and> collect_negative_policies role_arn example_cm example_role False = Inl AttributeError
   \<and> PolicyContainer_init example_loads role_arn example_cm False = Inl AttributeError
   \<and> PolicyContainer_init example_loads role_arn example_cm True = Inl AttributeError"
  by (simp add: model_defs example_defs)

text \<open>
  C2. The allow-side list should be attached, then inline, then group policies. On the
  example user, whose one group has the attached policy \<open>doc_G\<close>, the container holds
  the attached and the inline policy only: the group function returns the empty list
  although the group has a document.
\<close>

theorem group_policies_dropped:
  "PolicyContainer_init example_loads user_arn example_cm False = Inr user_pc
   \<and> pc_policies user_pc = [doc_A, doc_B]
   \<and> groups example_user = Some (Inr [example_group])
   \<and> get_policy_documents_for_resource example_group = Inr [doc_G]
   \<and> get_group_policy_documents_for_resource example_user = Inr []"
  by (simp add: model_defs example_defs)

text \<open>
  C3. With the collection of account policies enabled and an identity without account
  field, the lookup should be made with the caller's account number. On the example the
  caller's account is \<open>111122223333\<close>, for which the lookup answers, and the construction
  fails with the error the lookup gives for the target \<open>None\<close>: the lookup was made with
  the identity's absent account field.
\<close>

theorem scp_lookup_ignores_caller_account:
  "account_id user_no_account = None
   \<and> account_number example_cm = Inr ''111122223333''
   \<and> get_scps_for_account (Some ''111122223333'') example_cm = Inr [JStr ''scp-text'']
   \<and> get_scps_for_account None example_cm = Inl (OtherError ''ParamValidationError'')
   \<and> collect_negative_policies user_no_account example_cm example_user True
       = Inl (OtherError ''ParamValidationError'')
   \<and> PolicyContainer_init example_loads user_no_account example_cm True
       = Inl (OtherError ''ParamValidationError'')"
  by (simp add: model_defs example_defs)

section \<open>Policy Merger\<close>

text \<open>
  C4. For every list of policy documents, each a structured mapping or a text that
  deserializes to one, with Statement sequences \<open>sss\<close>, the merge returns the document
  with Version \<open>2012-10-17\<close> whose Statement sequence is the concatenation of the inputs'
  Statement sequences in order.
\<close>

theorem merge_policy_dicts_concat:
  assumes "list_all2 (\<lambda>p ss. document_statements loads p = Some ss) ps sss"
  shows "merge_policy_dicts loads ps =
           Inr (JDict [(''Version'', JStr ''2012-10-17''),
                       (''Statement'', JList (concat sss))])"
  by (simp add: merge_policy_dicts_def merge_statements_concat [OF assms])

text \<open>
  C4, on the empty list and on a list of a structured document and a text.
\<close>

theorem merge_policy_dicts_concat_witness:
  "list_all2 (\<lambda>p ss. document_statements example_loads p = Some ss)
     [boundary_doc, JStr ''scp-text'']
     [[JStr ''AllowS3'', JStr ''AllowEC2''], [JStr ''DenyLeaveOrg'']]
   \<and> merge_policy_dicts example_loads [boundary_doc, JStr ''scp-text''] =
     Inr (JDict [(''Version'', JStr ''2012-10-17''),
                 (''Statement'',
                  JList [JStr ''AllowS3'', JStr ''AllowEC2'', JStr ''DenyLeaveOrg''])])
   \<and> merge_policy_dicts example_loads [] =
     Inr (JDict [(''Version'', JStr ''2012-10-17''), (''Statement'', JList [])])"
proof -
  have h0: "list_all2 (\<lambda>p ss. document_statements example_loads p = Some ss) [] []"
    by simp
  have h2: "list_all2 (\<lambda>p ss. document_statements example_loads p = Some ss)
              [boundary_doc, JStr ''scp-text'']
              [[JStr ''AllowS3'', JStr ''AllowEC2''], [JStr ''DenyLeaveOrg'']]"
    by (simp add: document_statements_def example_loads_def boundary_doc_def)
  show ?thesis
    using h2 merge_policy_dicts_concat [OF h0] merge_policy_dicts_concat [OF h2] by simp
qed

section \<open>Identity Reference: parsing and rendering\<close>

text \<open>
  C5, as the claim states it, fails: the string \<open>arn:aws\<close> has two parts, and parsing it
  raises nothing and returns an Identity Reference with two fields set.
\<close>

theorem from_string_short_counterexample:
  "length (split_on CHR '':'' ''arn:aws'') = 2 \<and>
   from_string ''arn:aws'' =
     Inr \<lparr>prefix = Some ''arn'', partition = Some ''aws'', service = None, region = None,
          account_id = None, resource_type = None, resource_id = None\<rparr>"
  by (simp add: from_string_def split_arn_string_def ARN_init_def arg_or_none_def Let_def)

text \<open>
  C5, amended. For every input string with fewer than 6 \<open>:\<close>-delimited parts, parsing
  raises no error and returns a partially populated Identity Reference: the parts fill
  the fields in order from the prefix, and the remaining fields are unset.
\<close>

theorem from_string_short:
  assumes "length (split_on CHR '':'' s) < 6"
  shows "\<exists>a. from_string s = Inr a \<and>
           ARN_fields a = map Some (split_on CHR '':'' s) @
                          replicate (7 - length (split_on CHR '':'' s)) None"
proof -
  let ?parts = "split_on CHR '':'' s"
  have sp: "split_arn_string s = Inr ?parts"
    using assms by (simp add: split_arn_string_def Let_def)
  have "from_string s = ARN_init ?parts"
    by (simp add: from_string_def sp)
  moreover have "\<not> length ?parts > 7" using assms by simp
  ultimately show ?thesis
    using fields_of_parts [OF assms]
    by (simp add: ARN_init_def ARN_fields_def)
qed

text \<open>C5, amended, on the string \<open>arn:aws:iam\<close>.\<close>

theorem from_string_short_witness:
  "length (split_on CHR '':'' ''arn:aws:iam'') < 6 \<and>
   (\<exists>a. from_string ''arn:aws:iam'' = Inr a \<and>
        ARN_fields a = [Some ''arn'', Some ''aws'', Some ''iam'', None, None, None, None])"
  using from_string_short [of "''arn:aws:iam''"] by (simp add: numeral_eq_Suc)

text \<open>
  C6. A string with exactly 6 parts and no \<open>/\<close> in the sixth should parse to an Identity
  Reference with an empty resource id. The string \<open>arn:aws:s3:::mybucket\<close> is one, and
  parsing it raises IndexError.
\<close>

theorem from_string_bucket_raises:
  "length (split_on CHR '':'' ''arn:aws:s3:::mybucket'') = 6 \<and>
   CHR ''/'' \<notin> set (split_on CHR '':'' ''arn:aws:s3:::mybucket'' ! 5) \<and>
   from_string ''arn:aws:s3:::mybucket'' = Inl IndexError"
  by (simp add: from_string_def split_arn_string_def list_setitem_def Let_def)

text \<open>
  C7. The identity string \<open>arn:aws:iam::123456789012:role/MyRole\<close> parses to the seven
  fields prefix \<open>arn\<close>, partition \<open>aws\<close>, service \<open>iam\<close>, empty region, account
  \<open>123456789012\<close>, resource type \<open>role\<close> and resource id \<open>MyRole\<close>, and rendering the
  parsed value gives the input string back.
\<close>

theorem from_string_role_scenario:
  "from_string ''arn:aws:iam::123456789012:role/MyRole'' =
     Inr \<lparr>prefix = Some ''arn'', partition = Some ''aws'', service = Some ''iam'',
          region = Some '''', account_id = Some ''123456789012'',
          resource_type = Some ''role'', resource_id = Some ''MyRole''\<rparr>
   \<and> ARN_str \<lparr>prefix = Some ''arn'', partition = Some ''aws'', service = Some ''iam'',
          region = Some '''', account_id = Some ''123456789012'',
          resource_type = Some ''role'', resource_id = Some ''MyRole''\<rparr>
     = ''arn:aws:iam::123456789012:role/MyRole''"
  by (simp add: from_string_def split_arn_string_def ARN_init_def arg_or_none_def
      ARN_str_def fmt_def lower_def lower_char_def Let_def)

text \<open>
  C10, as the claim states it, fails: the Identity Reference with every field unset
  renders with the text \<open>None\<close> in every segment, not as empty segments.
\<close>

theorem ARN_str_unset_counterexample:
  "ARN_str \<lparr>prefix = None, partition = None, service = None, region = None,
            account_id = None, resource_type = None, resource_id = None\<rparr>
     = ''None:None:None:None:None:None/None''
   \<and> ARN_str \<lparr>prefix = None, partition = None, service = None, region = None,
            account_id = None, resource_type = None, resource_id = None\<rparr>
     \<noteq> '':::::/''"
  by (simp add: ARN_str_def fmt_def)

text \<open>
  C10, amended. For every Identity Reference, rendering gives the segments in the order
  prefix, partition, service, region, account id joined by \<open>:\<close>, then resource type,
  \<open>/\<close> and resource id; a field that is set renders as its own text, and a field that
  is unset renders as the text \<open>None\<close>.
\<close>

theorem ARN_str_segments:
  "ARN_str a =
     join '':'' [fmt (prefix a), fmt (partition a), fmt (service a), fmt (region a),
                fmt (account_id a), fmt (resource_type a) @ ''/'' @ fmt (resource_id a)]
   \<and> fmt None = ''None'' \<and> (\<forall>s. fmt (Some s) = s)"
  by (simp add: ARN_str_def fmt_def)

section \<open>Simulated Dispatch Client\<close>

text \<open>
  C8. For every dispatched call whose operation the provider's mapping of the service
  names, the call is the simulate operation of the client's Policy Container on the
  single action made of the lower-cased service name, a colon and the mapped API name,
  and the request sent carries exactly that action.
\<close>

theorem simulate_api_action:
  assumes "method_to_api_mapping (sc_service sc) = Inr mapping"
    and "mapping operation = Some api"
  shows "simulate_api dumps method_to_api_mapping sc operation =
           PolicyContainer_simulate dumps (sc_pc sc) [lower (sc_service sc) @ '':'' @ api] []
         \<and> ActionNames (simulate_request dumps (sc_pc sc)
                          [lower (sc_service sc) @ '':'' @ api] [])
           = [lower (sc_service sc) @ '':'' @ api]"
  using assms by (simp add: simulate_api_def simulate_request_def Let_def)

text \<open>
  C8, on the service \<open>ec2\<close> and the operation \<open>describe_instances\<close>, mapped to
  \<open>DescribeInstances\<close>: the action sent is \<open>ec2:DescribeInstances\<close>.
\<close>

theorem simulate_api_action_witness:
  "example_mapping (sc_service ec2_client) = Inr ec2_api_names
   \<and> ec2_api_names ''describe_instances'' = Some ''DescribeInstances''
   \<and> simulate_api example_dumps example_mapping ec2_client ''describe_instances'' =
       PolicyContainer_simulate example_dumps user_pc [''ec2:DescribeInstances''] []
   \<and> ActionNames (simulate_request example_dumps user_pc [''ec2:DescribeInstances''] [])
       = [''ec2:DescribeInstances'']"
proof -
  have h1: "example_mapping (sc_service ec2_client) = Inr ec2_api_names"
    by (simp add: example_mapping_def ec2_client_def)
  have h2: "ec2_api_names ''describe_instances'' = Some ''DescribeInstances''"
    by (simp add: ec2_api_names_def)
  have l: "lower ''ec2'' @ '':'' @ ''DescribeInstances'' = ''ec2:DescribeInstances''"
    by (simp add: lower_def lower_char_def)
  have s: "sc_service ec2_client = ''ec2''" "sc_pc ec2_client = user_pc"
    by (simp_all add: ec2_client_def)
  show ?thesis
    using simulate_api_action [of example_mapping ec2_client ec2_api_names
        "''describe_instances''" "''DescribeInstances''" example_dumps] h1 h2
    unfolding s l by simp
qed

section \<open>Region availability\<close>

text \<open>
  C9. The probe should return true when the identity call succeeds and false on a
  ClientError. Whatever the identity call does, the probe raises the exception of its
  \<^verbatim>\<open>finally\<close> block.
\<close>

theorem is_region_available_always_raises:
  "is_region_available cm reg = Inl PyException"
  by (simp add: is_region_available_def py_finally_def)

end
